theory Spec2Isabelle
  imports Main "HOL-Library.Word" "HOL-Library.Sublist" "HOL-Library.Char_ord"
    "HOL-Library.List_Lexorder" "HOL-Library.Product_Lexorder" "HOL-Library.Option_ord"
begin

section \<open>Descriptors behind pointers\<close>

text \<open>
  The rules and helpers of the linter receive Go pointers to descriptors
  (\<^verbatim>\<open>*desc.FieldDescriptor\<close>, \<^verbatim>\<open>*desc.MessageDescriptor\<close>, ...) and read them through
  getter methods. A pointer is an address or \<^verbatim>\<open>nil\<close>; the descriptors themselves live in
  a store with one typed heap per descriptor kind. A typed Go pointer that is not
  \<^verbatim>\<open>nil\<close> always points to an object of its type, so each heap is a total function.
\<close>

type_synonym addr = nat

type_synonym ptr = "addr option"

datatype FieldDescriptorProto_Type =
    TYPE_DOUBLE | TYPE_FLOAT | TYPE_INT64 | TYPE_UINT64 | TYPE_INT32
  | TYPE_FIXED64 | TYPE_FIXED32 | TYPE_BOOL | TYPE_STRING | TYPE_GROUP
  | TYPE_MESSAGE | TYPE_BYTES | TYPE_UINT32 | TYPE_ENUM | TYPE_SFIXED32
  | TYPE_SFIXED64 | TYPE_SINT32 | TYPE_SINT64

record FileDescriptor =
  file_name :: string
  file_package :: string

record MessageDescriptor =
  msg_name :: string
  msg_fqn :: string
  msg_file :: ptr
  msg_fieldByName :: "string \<Rightarrow> ptr"

record FieldDescriptor =
  fld_name :: string
  fld_file :: ptr
  fld_type :: FieldDescriptorProto_Type
  fld_repeated :: bool
  fld_msgType :: ptr
  fld_mapValueType :: ptr

record EnumDescriptor =
  enum_name :: string
  enum_file :: ptr

record EnumValueDescriptor =
  ev_name :: string
  ev_number :: "32 word"
  ev_enum :: ptr

record MethodDescriptor =
  mth_name :: string
  mth_inputType :: ptr
  mth_outputType :: ptr

record store =
  file_at :: "addr \<Rightarrow> FileDescriptor"
  message_at :: "addr \<Rightarrow> MessageDescriptor"
  field_at :: "addr \<Rightarrow> FieldDescriptor"
  enum_at :: "addr \<Rightarrow> EnumDescriptor"
  enum_value_at :: "addr \<Rightarrow> EnumValueDescriptor"
  method_at :: "addr \<Rightarrow> MethodDescriptor"

text \<open>
  The interface \<^verbatim>\<open>desc.Descriptor\<close>: a pointer together with the kind of descriptor it
  points to.
\<close>

datatype descriptor =
    DescFile ptr | DescMessage ptr | DescField ptr
  | DescEnum ptr | DescEnumValue ptr | DescService ptr | DescMethod ptr

subsection \<open>Computations over the store\<close>

text \<open>
  A Go function body is a computation that starts in a store and ends in a store,
  with either a value or a run-time panic. Calling a method on a \<^verbatim>\<open>nil\<close> descriptor
  pointer dereferences it and panics.
\<close>

datatype panic = NilPointerDereference

type_synonym 'a go = "store \<Rightarrow> (panic + 'a) \<times> store"

definition ret :: "'a \<Rightarrow> 'a go" where
  "ret x = (\<lambda>s. (Inr x, s))"

definition seq :: "'a go \<Rightarrow> ('a \<Rightarrow> 'b go) \<Rightarrow> 'b go" where
  "seq m f = (\<lambda>s. case m s of (Inl e, s') \<Rightarrow> (Inl e, s') | (Inr x, s') \<Rightarrow> f x s')"

definition reads :: "(store \<Rightarrow> 'a) \<Rightarrow> 'a go" where
  "reads g = (\<lambda>s. (Inr (g s), s))"

definition deref :: "(store \<Rightarrow> addr \<Rightarrow> 'a) \<Rightarrow> ptr \<Rightarrow> 'a go" where
  "deref sel p = (\<lambda>s. case p of None \<Rightarrow> (Inl NilPointerDereference, s)
                              | Some a \<Rightarrow> (Inr (sel s a), s))"

subsection \<open>The getters of the descriptor library\<close>

text \<open>
  The descriptor library (\<^verbatim>\<open>github.com/jhump/protoreflect/desc\<close>) is not part of the
  repository. A descriptor is modelled by what the getters that the sources call return;
  a getter reads the descriptor that its receiver points to.
\<close>

definition Field_GetName :: "ptr \<Rightarrow> string go" where
  "Field_GetName f = deref (\<lambda>s a. fld_name (field_at s a)) f"

definition Field_GetFile :: "ptr \<Rightarrow> ptr go" where
  "Field_GetFile f = deref (\<lambda>s a. fld_file (field_at s a)) f"

definition Field_GetType :: "ptr \<Rightarrow> FieldDescriptorProto_Type go" where
  "Field_GetType f = deref (\<lambda>s a. fld_type (field_at s a)) f"

definition Field_IsRepeated :: "ptr \<Rightarrow> bool go" where
  "Field_IsRepeated f = deref (\<lambda>s a. fld_repeated (field_at s a)) f"

definition Field_GetMessageType :: "ptr \<Rightarrow> ptr go" where
  "Field_GetMessageType f = deref (\<lambda>s a. fld_msgType (field_at s a)) f"

definition Field_GetMapValueType :: "ptr \<Rightarrow> ptr go" where
  "Field_GetMapValueType f = deref (\<lambda>s a. fld_mapValueType (field_at s a)) f"

definition Message_GetName :: "ptr \<Rightarrow> string go" where
  "Message_GetName m = deref (\<lambda>s a. msg_name (message_at s a)) m"

definition Message_GetFullyQualifiedName :: "ptr \<Rightarrow> string go" where
  "Message_GetFullyQualifiedName m = deref (\<lambda>s a. msg_fqn (message_at s a)) m"

definition Message_FindFieldByName :: "ptr \<Rightarrow> string \<Rightarrow> ptr go" where
  "Message_FindFieldByName m n = deref (\<lambda>s a. msg_fieldByName (message_at s a) n) m"

definition Enum_GetName :: "ptr \<Rightarrow> string go" where
  "Enum_GetName e = deref (\<lambda>s a. enum_name (enum_at s a)) e"

definition EnumValue_GetName :: "ptr \<Rightarrow> string go" where
  "EnumValue_GetName v = deref (\<lambda>s a. ev_name (enum_value_at s a)) v"

definition EnumValue_GetNumber :: "ptr \<Rightarrow> 32 word go" where
  "EnumValue_GetNumber v = deref (\<lambda>s a. ev_number (enum_value_at s a)) v"

definition EnumValue_GetEnum :: "ptr \<Rightarrow> ptr go" where
  "EnumValue_GetEnum v = deref (\<lambda>s a. ev_enum (enum_value_at s a)) v"

definition Method_GetName :: "ptr \<Rightarrow> string go" where
  "Method_GetName m = deref (\<lambda>s a. mth_name (method_at s a)) m"

definition Method_GetInputType :: "ptr \<Rightarrow> ptr go" where
  "Method_GetInputType m = deref (\<lambda>s a. mth_inputType (method_at s a)) m"

definition Method_GetOutputType :: "ptr \<Rightarrow> ptr go" where
  "Method_GetOutputType m = deref (\<lambda>s a. mth_outputType (method_at s a)) m"

text \<open>
  Go's short-circuit operators: the right operand is evaluated only when the left one
  does not decide the result.
\<close>

definition orelse :: "bool go \<Rightarrow> bool go \<Rightarrow> bool go" where
  "orelse a b = seq a (\<lambda>x. if x then ret True else b)"

definition andalso :: "bool go \<Rightarrow> bool go \<Rightarrow> bool go" where
  "andalso a b = seq a (\<lambda>x. if x then b else ret False)"

section \<open>Decimal numerals\<close>

text \<open>
  The decimal text of an integer, as the verb \<^verbatim>\<open>%d\<close> of \<^verbatim>\<open>fmt.Sprintf\<close> prints it.
\<close>

definition digit_char :: "nat \<Rightarrow> char" where
  "digit_char d = ''0123456789'' ! d"

fun decimal :: "nat \<Rightarrow> string" where
  "decimal n = (if n < 10 then [digit_char n]
                else decimal (n div 10) @ [digit_char (n mod 10)])"

declare decimal.simps [simp del]

definition Itoa :: "int \<Rightarrow> string" where
  "Itoa i = (if i < 0 then CHR ''-'' # decimal (nat (- i)) else decimal (nat i))"

section \<open>Rule identity\<close>

text \<open>
  Modelled from the spec: the type \<^verbatim>\<open>RuleName\<close> of the package \<^verbatim>\<open>lint\<close>, which is not among
  the sources. A RuleName is the triple (namespace identifier, numeric identifier, short
  kebab-case name) of section 3.
\<close>

record RuleName =
  rn_namespace :: string
  rn_number :: int
  rn_short :: string

text \<open>
  Modelled from the spec: the fixed separator of the textual form of a RuleName
  (section 3, \<^verbatim>\<open>core::25146::object-values\<close>); the package \<^verbatim>\<open>lint\<close> that declares it is missing.
\<close>

definition nameSeparator :: string where
  "nameSeparator = ''::''"

text \<open>
  Modelled from the spec: \<^verbatim>\<open>lint.NewRuleName\<close>, missing from the sources. The rules of
  this repository are built from a number and a short name, and live in the namespace
  \<^verbatim>\<open>core\<close> (the rule's documentation: \<^verbatim>\<open>name: [core, '25146', object-values]\<close>).
\<close>

definition NewRuleName :: "int \<Rightarrow> string \<Rightarrow> RuleName" where
  "NewRuleName aip name = \<lparr>rn_namespace = ''core'', rn_number = aip, rn_short = name\<rparr>"

text \<open>
  Modelled from the spec: the textual form of a RuleName, of the missing package \<^verbatim>\<open>lint\<close>:
  the namespace, the numeric id and the short name joined by the separator (section 3).
\<close>

definition RuleName_String :: "RuleName \<Rightarrow> string" where
  "RuleName_String r =
     rn_namespace r @ nameSeparator @ Itoa (rn_number r) @ nameSeparator @ rn_short r"

section \<open>Problems and rules\<close>

text \<open>
  A \<^verbatim>\<open>lint.Problem\<close> as the sources build it: the message, the suggestion (the empty
  string when the literal leaves it out), the descriptor and the location (\<^verbatim>\<open>nil\<close> when
  the literal leaves it out). The representation of a source location is left open.
\<close>

record 'loc Problem =
  Message :: string
  Suggestion :: string
  Descriptor :: descriptor
  Location :: "'loc option"

text \<open>
  The rule structs \<^verbatim>\<open>lint.FieldRule\<close> and \<^verbatim>\<open>lint.EnumValueRule\<close> as the sources fill them:
  the name, the applicability predicate and the check.
\<close>

record ProtoRule =
  Name :: RuleName
  OnlyIf :: "ptr \<Rightarrow> bool go"

record 'loc FieldRule = ProtoRule +
  LintField :: "ptr \<Rightarrow> 'loc Problem list go"

record 'loc EnumValueRule = ProtoRule +
  LintEnumValue :: "ptr \<Rightarrow> 'loc Problem list go"

text \<open>
  The HTTP rules that \<^verbatim>\<open>utils.GetHTTPRules\<close> extracts from a method's annotations, and
  the resource reference that \<^verbatim>\<open>utils.GetResourceReference\<close> extracts from a field's.
\<close>

record HTTPRule =
  Method :: string
  URI :: string
  Body :: string

record ResourceReference =
  rr_type :: string
  rr_child_type :: string

text \<open>
  What the sources call and do not define: helpers of the package \<^verbatim>\<open>utils\<close> that are
  not among the sources, the package \<^verbatim>\<open>locations\<close>, \<^verbatim>\<open>strcase.SnakeCase\<close>,
  \<^verbatim>\<open>strings.ToUpper\<close> and the verb \<^verbatim>\<open>%q\<close> of \<^verbatim>\<open>fmt.Sprintf\<close>. They are parameters of
  the model: total functions that read the store.
\<close>

record 'loc externals =
  IsCommonProto :: "store \<Rightarrow> ptr \<Rightarrow> bool"
  GetFieldBehavior :: "store \<Rightarrow> ptr \<Rightarrow> string set"
  GetResourceReference :: "store \<Rightarrow> ptr \<Rightarrow> ResourceReference option"
  GetHTTPRules :: "store \<Rightarrow> ptr \<Rightarrow> HTTPRule list"
  GetVariables :: "HTTPRule \<Rightarrow> (string \<rightharpoonup> string)"
  FieldType :: "store \<Rightarrow> ptr \<Rightarrow> 'loc option"
  DescriptorName :: "store \<Rightarrow> descriptor \<Rightarrow> 'loc option"
  MethodHTTPRule :: "store \<Rightarrow> ptr \<Rightarrow> 'loc option"
  MethodRequestType :: "store \<Rightarrow> ptr \<Rightarrow> 'loc option"
  MethodResponseType :: "store \<Rightarrow> ptr \<Rightarrow> 'loc option"
  SnakeCase :: "string \<Rightarrow> string"
  ToUpper :: "string \<Rightarrow> string"
  Quote :: "string \<Rightarrow> string"

section \<open>The rule core::25146::object-values\<close>

definition objectValues_OnlyIf :: "'loc externals \<Rightarrow> ptr \<Rightarrow> bool go" where
  "objectValues_OnlyIf env f =
     andalso
       (seq (Field_GetFile f) (\<lambda>fl. seq (reads (\<lambda>s. IsCommonProto env s fl))
          (\<lambda>common. ret (\<not> common))))
       (seq (Field_GetMapValueType f) (\<lambda>v. ret (v \<noteq> None)))"

definition objectValues_LintField :: "'loc externals \<Rightarrow> ptr \<Rightarrow> 'loc Problem list go" where
  "objectValues_LintField env f =
     seq (Field_GetMapValueType f) (\<lambda>v.
     seq (Field_GetMessageType v) (\<lambda>mt.
       if mt \<noteq> None then
         seq (reads (\<lambda>s. FieldType env s f)) (\<lambda>loc.
         ret [\<lparr>Message = ''Avoid using objects as map values.'',
               Suggestion = [],
               Descriptor = DescField f,
               Location = loc\<rparr>])
       else ret []))"

definition objectValues :: "'loc externals \<Rightarrow> 'loc FieldRule" where
  "objectValues env =
     \<lparr>Name = NewRuleName 25146 ''object-values'',
      OnlyIf = objectValues_OnlyIf env,
      LintField = objectValues_LintField env\<rparr>"

section \<open>The rule unspecified of package aip0126\<close>

definition isFirstEnumValue :: "ptr \<Rightarrow> bool go" where
  "isFirstEnumValue v = seq (EnumValue_GetNumber v) (\<lambda>n. ret (n = 0))"

definition unspecified_LintEnumValue :: "'loc externals \<Rightarrow> ptr \<Rightarrow> 'loc Problem list go" where
  "unspecified_LintEnumValue env v =
     seq (EnumValue_GetEnum v) (\<lambda>e.
     seq (Enum_GetName e) (\<lambda>en.
       let want = ToUpper env (SnakeCase env en @ ''_UNSPECIFIED'') in
       seq (EnumValue_GetName v) (\<lambda>n.
         if n \<noteq> want then
           seq (reads (\<lambda>s. DescriptorName env s (DescEnumValue v))) (\<lambda>loc.
           ret [\<lparr>Message = ''The first enum value should be '' @ Quote env want,
                 Suggestion = want,
                 Descriptor = DescEnumValue v,
                 Location = loc\<rparr>])
         else ret [])))"

definition unspecified :: "'loc externals \<Rightarrow> 'loc EnumValueRule" where
  "unspecified env =
     \<lparr>Name = NewRuleName 126 ''unspecified'',
      OnlyIf = isFirstEnumValue,
      LintEnumValue = unspecified_LintEnumValue env\<rparr>"

section \<open>The common lints of package utils\<close>

text \<open>
  A Go \<^verbatim>\<open>error\<close> is \<^verbatim>\<open>nil\<close> or, in \<^verbatim>\<open>common_lints.go\<close>, a \<^verbatim>\<open>lintErr\<close> with its problems
  and its message.
\<close>

record 'loc lintErr =
  lintErr_problems :: "'loc Problem list"
  lintErr_msg :: string

type_synonym 'loc error = "'loc lintErr option"

definition Problems :: "'loc lintErr \<Rightarrow> 'loc Problem list" where
  "Problems le = lintErr_problems le"

definition Error :: "'loc lintErr \<Rightarrow> string" where
  "Error le = lintErr_msg le"

fun Join :: "string list \<Rightarrow> string \<Rightarrow> string" where
  "Join [] sep = []"
| "Join [x] sep = x"
| "Join (x # y # ys) sep = x @ sep @ Join (y # ys) sep"

definition NewLintErr :: "'loc externals \<Rightarrow> 'loc Problem list \<Rightarrow> 'loc error" where
  "NewLintErr env ps =
     Some \<lparr>lintErr_problems = ps, lintErr_msg = Join (map (\<lambda>p. Quote env (Message p)) ps) '', ''\<rparr>"

definition LintFieldPresent :: "'loc externals \<Rightarrow> ptr \<Rightarrow> string \<Rightarrow> (ptr \<times> 'loc error) go" where
  "LintFieldPresent env m field =
     seq (Message_FindFieldByName m field) (\<lambda>f.
       if f = None then
         seq (Message_GetName m) (\<lambda>n.
         ret (None, NewLintErr env
           [\<lparr>Message = ''Message `'' @ n @ ''` has no `'' @ field @ ''` field.'',
             Suggestion = [],
             Descriptor = DescMessage m,
             Location = None\<rparr>]))
       else ret (f, None))"

text \<open>
  \<^verbatim>\<open>builder.FieldType\<close> of the descriptor library, as far as the sources use it: the
  scalar types built by \<^verbatim>\<open>FieldTypeString()\<close> and \<^verbatim>\<open>FieldTypeBool()\<close>, read by \<^verbatim>\<open>GetType()\<close>.
\<close>

datatype builder_FieldType = FieldTypeScalar (FieldType_GetType: FieldDescriptorProto_Type)

definition FieldTypeString :: builder_FieldType where
  "FieldTypeString = FieldTypeScalar TYPE_STRING"

definition FieldTypeBool :: builder_FieldType where
  "FieldTypeBool = FieldTypeScalar TYPE_BOOL"

definition lintSingularField ::
  "'loc externals \<Rightarrow> ptr \<Rightarrow> builder_FieldType \<Rightarrow> string \<Rightarrow> 'loc error go" where
  "lintSingularField env f t want =
     seq (orelse (seq (Field_GetType f) (\<lambda>ty. ret (ty \<noteq> FieldType_GetType t)))
                 (Field_IsRepeated f)) (\<lambda>bad.
       if bad then
         seq (Field_GetName f) (\<lambda>n.
         seq (reads (\<lambda>s. FieldType env s f)) (\<lambda>loc.
         ret (NewLintErr env
           [\<lparr>Message = ''The `'' @ n @ ''` field must be a singular '' @ want @ ''.'',
             Suggestion = want,
             Descriptor = DescField f,
             Location = loc\<rparr>])))
       else ret None)"

definition LintSingularStringField :: "'loc externals \<Rightarrow> ptr \<Rightarrow> 'loc error go" where
  "LintSingularStringField env f = lintSingularField env f FieldTypeString ''string''"

definition LintSingularBoolField :: "'loc externals \<Rightarrow> ptr \<Rightarrow> 'loc error go" where
  "LintSingularBoolField env f = lintSingularField env f FieldTypeBool ''bool''"

definition LintFieldMask :: "'loc externals \<Rightarrow> ptr \<Rightarrow> 'loc error go" where
  "LintFieldMask env f =
     (let want = ''google.protobuf.FieldMask'' in
      seq (Field_GetMessageType f) (\<lambda>t.
      seq (orelse (ret (t = None))
            (orelse (seq (Message_GetFullyQualifiedName t) (\<lambda>fqn. ret (fqn \<noteq> want)))
                    (Field_IsRepeated f))) (\<lambda>bad.
        if bad then
          seq (Field_GetName f) (\<lambda>n.
          seq (reads (\<lambda>s. FieldType env s f)) (\<lambda>loc.
          ret (NewLintErr env
            [\<lparr>Message = ''The `'' @ n @ ''` field should be a singular '' @ want @ ''.'',
              Suggestion = want,
              Descriptor = DescField f,
              Location = loc\<rparr>])))
        else ret None)))"

definition LintFieldPresentAndSingularString ::
  "'loc externals \<Rightarrow> string \<Rightarrow> ptr \<Rightarrow> 'loc error go" where
  "LintFieldPresentAndSingularString env field m =
     seq (LintFieldPresent env m field) (\<lambda>(f, err).
       if err \<noteq> None then ret err else LintSingularStringField env f)"

definition lintFieldBehavior :: "'loc externals \<Rightarrow> ptr \<Rightarrow> string \<Rightarrow> 'loc error go" where
  "lintFieldBehavior env f want =
     seq (reads (\<lambda>s. GetFieldBehavior env s f)) (\<lambda>behaviors.
       if want \<notin> behaviors then
         seq (Field_GetName f) (\<lambda>n.
         ret (NewLintErr env
           [\<lparr>Message = ''The `'' @ n @ ''` field should include `(google.api.field_behavior) = ''
                         @ want @ ''`.'',
             Suggestion = [],
             Descriptor = DescField f,
             Location = None\<rparr>]))
       else ret None)"

definition LintRequiredField :: "'loc externals \<Rightarrow> ptr \<Rightarrow> 'loc error go" where
  "LintRequiredField env f = lintFieldBehavior env f ''REQUIRED''"

definition LintOutputOnlyField :: "'loc externals \<Rightarrow> ptr \<Rightarrow> 'loc error go" where
  "LintOutputOnlyField env f = lintFieldBehavior env f ''OUTPUT_ONLY''"

definition LintFieldResourceReference :: "'loc externals \<Rightarrow> ptr \<Rightarrow> 'loc error go" where
  "LintFieldResourceReference env f =
     seq (reads (\<lambda>s. GetResourceReference env s f)) (\<lambda>ref.
       if ref = None then
         seq (Field_GetName f) (\<lambda>n.
         ret (NewLintErr env
           [\<lparr>Message = ''The `'' @ n
                         @ ''` field should include a `google.api.resource_reference` annotation.'',
             Suggestion = [],
             Descriptor = DescField f,
             Location = None\<rparr>]))
       else ret None)"

text \<open>
  The loop of \<^verbatim>\<open>lintHTTPBody\<close> over the method's HTTP rules: it returns from the function
  at the first rule whose body is not the wanted one.
\<close>

fun lintHTTPBody_range ::
  "'loc externals \<Rightarrow> ptr \<Rightarrow> string \<Rightarrow> string \<Rightarrow> HTTPRule list \<Rightarrow> 'loc error go" where
  "lintHTTPBody_range env m want msg [] = ret None"
| "lintHTTPBody_range env m want msg (httpRule # rest) =
     (if Body httpRule \<noteq> want then
        seq (Method_GetName m) (\<lambda>n.
        seq (reads (\<lambda>s. MethodHTTPRule env s m)) (\<lambda>loc.
        ret (NewLintErr env
          [\<lparr>Message = ''The `'' @ n @ ''` method should '' @ msg @ '' HTTP body.'',
            Suggestion = [],
            Descriptor = DescMethod m,
            Location = loc\<rparr>])))
      else lintHTTPBody_range env m want msg rest)"

definition lintHTTPBody :: "'loc externals \<Rightarrow> ptr \<Rightarrow> string \<Rightarrow> string \<Rightarrow> 'loc error go" where
  "lintHTTPBody env m want msg =
     seq (reads (\<lambda>s. GetHTTPRules env s m)) (lintHTTPBody_range env m want msg)"

definition LintNoHTTPBody :: "'loc externals \<Rightarrow> ptr \<Rightarrow> 'loc error go" where
  "LintNoHTTPBody env m = lintHTTPBody env m [] ''not have an''"

definition LintWildcardHTTPBody :: "'loc externals \<Rightarrow> ptr \<Rightarrow> 'loc error go" where
  "LintWildcardHTTPBody env m =
     lintHTTPBody env m ''*'' (''use '' @ [CHR 0x22] @ ''*'' @ [CHR 0x22] @ '' as the'')"

fun LintHTTPMethod_range ::
  "'loc externals \<Rightarrow> string \<Rightarrow> ptr \<Rightarrow> HTTPRule list \<Rightarrow> 'loc error go" where
  "LintHTTPMethod_range env verb m [] = ret None"
| "LintHTTPMethod_range env verb m (httpRule # rest) =
     (if Method httpRule \<noteq> verb then
        seq (Method_GetName m) (\<lambda>n.
        seq (reads (\<lambda>s. MethodHTTPRule env s m)) (\<lambda>loc.
        ret (NewLintErr env
          [\<lparr>Message = ''The `'' @ n @ ''` method should use the HTTP '' @ verb @ '' verb.'',
            Suggestion = [],
            Descriptor = DescMethod m,
            Location = loc\<rparr>])))
      else LintHTTPMethod_range env verb m rest)"

definition LintHTTPMethod :: "'loc externals \<Rightarrow> string \<Rightarrow> ptr \<Rightarrow> 'loc error go" where
  "LintHTTPMethod env verb m =
     seq (reads (\<lambda>s. GetHTTPRules env s m)) (LintHTTPMethod_range env verb m)"

definition LintMethodHasMatchingRequestName :: "'loc externals \<Rightarrow> ptr \<Rightarrow> 'loc error go" where
  "LintMethodHasMatchingRequestName env m =
     seq (Method_GetInputType m) (\<lambda>input.
     seq (Message_GetName input) (\<lambda>got.
     seq (Method_GetName m) (\<lambda>n.
       let want = n @ ''Request'' in
       if got \<noteq> want then
         seq (reads (\<lambda>s. MethodRequestType env s m)) (\<lambda>loc.
         ret (NewLintErr env
           [\<lparr>Message = ''Request message should be named after the RPC, i.e. ''
                         @ Quote env want @ ''.'',
             Suggestion = want,
             Descriptor = DescMethod m,
             Location = loc\<rparr>]))
       else ret None)))"

definition LintMethodHasMatchingResponseName :: "'loc externals \<Rightarrow> ptr \<Rightarrow> 'loc error go" where
  "LintMethodHasMatchingResponseName env m =
     seq (Method_GetOutputType m) (\<lambda>output.
     seq (Message_GetName output) (\<lambda>got.
     seq (Method_GetName m) (\<lambda>n.
       let want = n @ ''Response'' in
       if got \<noteq> want then
         seq (reads (\<lambda>s. MethodResponseType env s m)) (\<lambda>loc.
         ret (NewLintErr env
           [\<lparr>Message = ''Response message should be named after the RPC, i.e. ''
                         @ Quote env want @ ''.'',
             Suggestion = want,
             Descriptor = DescMethod m,
             Location = loc\<rparr>]))
       else ret None)))"

fun LintHTTPURIHasVariable_range ::
  "'loc externals \<Rightarrow> ptr \<Rightarrow> string \<Rightarrow> HTTPRule list \<Rightarrow> 'loc error go" where
  "LintHTTPURIHasVariable_range env m v [] = ret None"
| "LintHTTPURIHasVariable_range env m v (httpRule # rest) =
     (if v \<notin> dom (GetVariables env httpRule) then
        seq (reads (\<lambda>s. MethodHTTPRule env s m)) (\<lambda>loc.
        ret (NewLintErr env
          [\<lparr>Message = ''HTTP URI should include a `'' @ v @ ''` variable.'',
            Suggestion = [],
            Descriptor = DescMethod m,
            Location = loc\<rparr>]))
      else LintHTTPURIHasVariable_range env m v rest)"

definition LintHTTPURIHasVariable :: "'loc externals \<Rightarrow> ptr \<Rightarrow> string \<Rightarrow> 'loc error go" where
  "LintHTTPURIHasVariable env m v =
     seq (reads (\<lambda>s. GetHTTPRules env s m)) (LintHTTPURIHasVariable_range env m v)"

definition LintHTTPURIHasParentVariable :: "'loc externals \<Rightarrow> ptr \<Rightarrow> 'loc error go" where
  "LintHTTPURIHasParentVariable env m = LintHTTPURIHasVariable env m ''parent''"

definition LintHTTPURIHasNameVariable :: "'loc externals \<Rightarrow> ptr \<Rightarrow> 'loc error go" where
  "LintHTTPURIHasNameVariable env m = LintHTTPURIHasVariable env m ''name''"

text \<open>
  Go's \<^verbatim>\<open>int\<close> is modelled by the integers: the sources compare, take the maximum of
  lengths and print, and never compute a value that could overflow.
\<close>

definition max_int :: "int \<Rightarrow> int \<Rightarrow> int" where
  "max_int x y = (if x > y then x else y)"

text \<open>
  \<^verbatim>\<open>len\<close> of a Go map: the number of its keys.
\<close>

definition len_map :: "(string \<rightharpoonup> string) \<Rightarrow> int" where
  "len_map vars = int (card (dom vars))"

fun varsCount_range :: "'loc externals \<Rightarrow> HTTPRule list \<Rightarrow> int \<Rightarrow> int" where
  "varsCount_range env [] varsCount = varsCount"
| "varsCount_range env (httpRule # rest) varsCount =
     varsCount_range env rest (max_int varsCount (len_map (GetVariables env httpRule)))"

definition LintHTTPURIVariableCount :: "'loc externals \<Rightarrow> ptr \<Rightarrow> int \<Rightarrow> 'loc error go" where
  "LintHTTPURIVariableCount env m n =
     (let varsText = (if n = 1 then ''variable'' else ''variables'') in
      seq (reads (\<lambda>s. GetHTTPRules env s m)) (\<lambda>rules.
        let varsCount = varsCount_range env rules 0 in
        if varsCount \<noteq> n then
          seq (reads (\<lambda>s. MethodHTTPRule env s m)) (\<lambda>loc.
          ret (NewLintErr env
            [\<lparr>Message = ''HTTP URI should contain '' @ Itoa n @ '' '' @ varsText @ ''.'',
              Suggestion = [],
              Descriptor = DescMethod m,
              Location = loc\<rparr>]))
        else ret None))"

section \<open>The rule engine\<close>

text \<open>
  The engine (registry, suppression, traversal) is in the package \<^verbatim>\<open>lint\<close>, which is not
  among the sources. Every definition of this section is modelled from the spec; it
  reuses the descriptors, the problems and the rule names defined above.
\<close>

text \<open>
  Modelled from the spec: the declaration kinds (section 3, Declaration). The package
  \<^verbatim>\<open>lint\<close> that dispatches on them is missing.
\<close>

datatype kind =
    FileKind | MessageKind | FieldKind | EnumKind | EnumValueKind | ServiceKind | MethodKind

text \<open>
  Modelled from the spec: the kind of the declaration that a descriptor stands for, on
  which the missing package \<^verbatim>\<open>lint\<close> dispatches (section 9).
\<close>

fun kind_of :: "descriptor \<Rightarrow> kind" where
  "kind_of (DescFile p) = FileKind"
| "kind_of (DescMessage p) = MessageKind"
| "kind_of (DescField p) = FieldKind"
| "kind_of (DescEnum p) = EnumKind"
| "kind_of (DescEnumValue p) = EnumValueKind"
| "kind_of (DescService p) = ServiceKind"
| "kind_of (DescMethod p) = MethodKind"

text \<open>
  Modelled from the spec: a Declaration (section 3) is one node of the schema tree, with
  its name, its children in declared order and its leading comment blocks; the missing
  package \<^verbatim>\<open>lint\<close> walks it. The node also carries the descriptor it stands for, by which
  a Problem refers to it. A node of a tree is addressed by the child indices that lead
  to it from the root File.
\<close>

datatype decl =
  Declaration (decl_ref: descriptor) (decl_name: string)
    (decl_comments: "string list") (decl_children: "decl list")

text \<open>
  Modelled from the spec: a reference to a declaration of the tree (section 3: following
  containment upward leads to the File); the missing package \<^verbatim>\<open>lint\<close> holds pointers.
\<close>

type_synonym path = "nat list"

text \<open>
  Modelled from the spec: the declaration that a path leads to, by structural containment
  (section 3); the tree of the missing package \<^verbatim>\<open>lint\<close> is not among the sources.
\<close>

fun lookup_decl :: "decl \<Rightarrow> path \<Rightarrow> decl option" where
  "lookup_decl d [] = Some d"
| "lookup_decl d (i # p) =
     (if i < length (decl_children d) then lookup_decl (decl_children d ! i) p else None)"

text \<open>
  Modelled from the spec: the depth-first pre-order walk of section 4.3, each child set
  in declared order; the traversal of package \<^verbatim>\<open>lint\<close> is missing.
\<close>

fun preorder :: "decl \<Rightarrow> path list"
  and preorder_children :: "nat \<Rightarrow> decl list \<Rightarrow> path list" where
  "preorder (Declaration r n cs ch) = [] # preorder_children 0 ch"
| "preorder_children i [] = []"
| "preorder_children i (c # ch) = map ((#) i) (preorder c) @ preorder_children (Suc i) ch"

subsection \<open>Suppression\<close>

text \<open>
  Modelled from the spec: a SuppressionDirective (sections 3 and 4.2) of the missing
  package \<^verbatim>\<open>lint\<close>. Each of its tokens is a fully-qualified RuleName in textual form, a
  namespace prefix (all rules at or below the namespace) or the wildcard; it carries the
  justification, which must not be empty.
\<close>

datatype rule_token = FullName string | NamespacePrefix string | AllRules

record SuppressionDirective =
  sd_targets :: "rule_token list"
  sd_justification :: string

text \<open>
  Modelled from the spec: what the parser of the missing package \<^verbatim>\<open>lint\<close> makes of a
  comment block (section 9: a single parser function that produces a structured value).
  A block that has the directive prefix and bad syntax is malformed. The parser itself
  is a parameter \<open>parse\<close> of the engine.
\<close>

datatype parse_result = Parsed SuppressionDirective | BadSyntax

text \<open>
  Modelled from the spec: the type of the parser function of section 9, of the missing
  package \<^verbatim>\<open>lint\<close>.
\<close>

type_synonym parser = "string \<Rightarrow> parse_result list"

text \<open>
  Modelled from the spec: matching a token of a directive against a rule of the missing
  package \<^verbatim>\<open>lint\<close>. The textual form of the RuleName is the key.
\<close>

fun token_matches :: "rule_token \<Rightarrow> RuleName \<Rightarrow> bool" where
  "token_matches (FullName t) r = (t = RuleName_String r)"
| "token_matches (NamespacePrefix n) r = prefix (n @ nameSeparator) (RuleName_String r)"
| "token_matches AllRules r = True"

text \<open>
  Modelled from the spec: a directive of the missing package \<^verbatim>\<open>lint\<close> disables a rule when
  it is justified and one of its tokens matches; without justification it suppresses
  nothing and is malformed.
\<close>

fun disables :: "parse_result \<Rightarrow> RuleName \<Rightarrow> bool" where
  "disables (Parsed sd) r =
     (sd_justification sd \<noteq> [] \<and> (\<exists>t \<in> set (sd_targets sd). token_matches t r))"
| "disables BadSyntax r = False"

text \<open>
  Modelled from the spec: the condition \<^verbatim>\<open>MalformedSuppressionDirective\<close> of section 7, bad
  syntax or no justification; the missing package \<^verbatim>\<open>lint\<close> decides it.
\<close>

fun malformed :: "parse_result \<Rightarrow> bool" where
  "malformed (Parsed sd) = (sd_justification sd = [])"
| "malformed BadSyntax = True"

text \<open>
  Modelled from the spec: the comment blocks that \<^verbatim>\<open>IsSuppressed\<close> of the missing package
  \<^verbatim>\<open>lint\<close> collects (section 4.2), those of the declaration, of each of its ancestors and
  of the File.
\<close>

fun comments_along :: "decl \<Rightarrow> path \<Rightarrow> string list" where
  "comments_along d [] = decl_comments d"
| "comments_along d (i # p) =
     decl_comments d @
     (if i < length (decl_children d) then comments_along (decl_children d ! i) p else [])"

text \<open>
  Modelled from the spec: \<^verbatim>\<open>IsSuppressed\<close> of the missing package \<^verbatim>\<open>lint\<close> (section 4.2), a
  plain any-ancestor-matches OR.
\<close>

definition IsSuppressed :: "parser \<Rightarrow> decl \<Rightarrow> path \<Rightarrow> RuleName \<Rightarrow> bool" where
  "IsSuppressed parse root p name =
     (\<exists>block \<in> set (comments_along root p). \<exists>res \<in> set (parse block). disables res name)"

subsection \<open>Rules and the registry\<close>

text \<open>
  Modelled from the spec: a Rule (section 3) of the missing package \<^verbatim>\<open>lint\<close>, bound to one
  declaration kind, with its applicability predicate and its check function. A check
  can fail unexpectedly.
\<close>

record 'loc Rule =
  rule_Name :: RuleName
  rule_Kind :: kind
  rule_OnlyIf :: "descriptor \<Rightarrow> bool"
  rule_Lint :: "descriptor \<Rightarrow> panic + 'loc Problem list"

text \<open>
  Modelled from the spec: the Registry (sections 3 and 4.1) of the missing package
  \<^verbatim>\<open>lint\<close>, the rules in registration order, frozen once traversal has started.
\<close>

record 'loc Registry =
  reg_rules :: "'loc Rule list"
  reg_frozen :: bool

text \<open>
  Modelled from the spec: the two conditions that \<^verbatim>\<open>Register\<close> of the missing package
  \<^verbatim>\<open>lint\<close> fails with (sections 4.1 and 7).
\<close>

datatype registry_error = DuplicateRuleName | RegistryFrozen

text \<open>
  Modelled from the spec: \<^verbatim>\<open>Lookup\<close> of the missing package \<^verbatim>\<open>lint\<close> (section 4.1), exact
  lookup by name.
\<close>

definition Lookup :: "RuleName \<Rightarrow> 'loc Registry \<Rightarrow> 'loc Rule option" where
  "Lookup name reg = find (\<lambda>r. rule_Name r = name) (reg_rules reg)"

text \<open>
  Modelled from the spec: \<^verbatim>\<open>Register\<close> of the missing package \<^verbatim>\<open>lint\<close> (section 4.1). It is
  the only operation that changes the registry; it returns the condition it fails with,
  if any, and the registry after the call.
\<close>

definition Register :: "'loc Rule \<Rightarrow> 'loc Registry \<Rightarrow> registry_error option \<times> 'loc Registry" where
  "Register rule reg =
     (if reg_frozen reg then (Some RegistryFrozen, reg)
      else if Lookup (rule_Name rule) reg \<noteq> None then (Some DuplicateRuleName, reg)
      else (None, reg\<lparr>reg_rules := reg_rules reg @ [rule]\<rparr>))"

text \<open>
  Modelled from the spec: \<^verbatim>\<open>RulesForKind\<close> of the missing package \<^verbatim>\<open>lint\<close> (section 4.1),
  the rules bound to a kind, in registration order.
\<close>

definition RulesForKind :: "kind \<Rightarrow> 'loc Registry \<Rightarrow> 'loc Rule list" where
  "RulesForKind k reg = filter (\<lambda>r. rule_Kind r = k) (reg_rules reg)"

subsection \<open>Traversal and dispatch\<close>

text \<open>
  Modelled from the spec: a Problem of the output of the missing \<^verbatim>\<open>Run\<close>, tagged with the
  name of the rule that produced it (section 4.3, step 4) and with its condition of the
  taxonomy of section 7. The two conditions that the engine itself reports belong to no
  rule's findings.
\<close>

datatype condition = Finding | InternalRuleError | MalformedSuppressionDirective

text \<open>
  Modelled from the spec: an element of the output of the missing \<^verbatim>\<open>Run\<close>, a Problem with
  its tag and its condition.
\<close>

record 'loc Tagged =
  tag_rule :: "RuleName option"
  tag_condition :: condition
  tag_problem :: "'loc Problem"

text \<open>
  Modelled from the spec: steps 2 to 4 of section 4.3 for one rule at one visited
  declaration, in the missing package \<^verbatim>\<open>lint\<close>. A failure of the check becomes one
  synthetic Problem that names the rule. The record of the suppressions that were
  exercised, which the spec leaves to a rule of its own, is no part of the output and is
  left out.
\<close>

definition check_rule ::
  "parser \<Rightarrow> decl \<Rightarrow> path \<Rightarrow> decl \<Rightarrow> 'loc Rule \<Rightarrow> 'loc Tagged list" where
  "check_rule parse root p d r =
     (if \<not> rule_OnlyIf r (decl_ref d) then []
      else if IsSuppressed parse root p (rule_Name r) then []
      else case rule_Lint r (decl_ref d) of
             Inl e \<Rightarrow>
               [\<lparr>tag_rule = Some (rule_Name r), tag_condition = InternalRuleError,
                 tag_problem = \<lparr>Message = RuleName_String (rule_Name r), Suggestion = [],
                                Descriptor = decl_ref d, Location = None\<rparr>\<rparr>]
           | Inr ps \<Rightarrow>
               map (\<lambda>pr. \<lparr>tag_rule = Some (rule_Name r), tag_condition = Finding,
                          tag_problem = pr\<rparr>) ps)"

text \<open>
  Modelled from the spec: the report of the malformed directives among the comment blocks
  of a declaration, once per occurrence (sections 4.2 and 7), in the missing package
  \<^verbatim>\<open>lint\<close>.
\<close>

definition malformed_reports :: "parser \<Rightarrow> decl \<Rightarrow> 'loc Tagged list" where
  "malformed_reports parse d =
     concat (map (\<lambda>block.
       map (\<lambda>res. \<lparr>tag_rule = None, tag_condition = MalformedSuppressionDirective,
                    tag_problem = \<lparr>Message = block, Suggestion = [],
                                   Descriptor = decl_ref d, Location = None\<rparr>\<rparr>)
           (filter malformed (parse block)))
       (decl_comments d))"

text \<open>
  Modelled from the spec: what the missing \<^verbatim>\<open>Run\<close> collects at one visited declaration
  (section 4.3, steps 1 to 4).
\<close>

definition visit :: "parser \<Rightarrow> 'loc Registry \<Rightarrow> decl \<Rightarrow> path \<Rightarrow> 'loc Tagged list" where
  "visit parse reg root p =
     (case lookup_decl root p of
        None \<Rightarrow> []
      | Some d \<Rightarrow>
          malformed_reports parse d @
          concat (map (check_rule parse root p d) (RulesForKind (kind_of (decl_ref d)) reg)))"

text \<open>
  Modelled from the spec: the source position of the declaration that a Problem refers
  to, for the output ordering of the missing \<^verbatim>\<open>Run\<close> (section 4.3): its place in the walk.
\<close>

definition source_position :: "decl \<Rightarrow> descriptor \<Rightarrow> nat" where
  "source_position root d =
     length (takeWhile (\<lambda>p. map_option decl_ref (lookup_decl root p) \<noteq> Some d) (preorder root))"

text \<open>
  Modelled from the spec: the sort key of the output of the missing \<^verbatim>\<open>Run\<close> (section 4.3),
  the declaration's source position, then the RuleName in textual form.
\<close>

definition sort_position :: "decl \<Rightarrow> 'loc Tagged \<Rightarrow> nat \<times> string option" where
  "sort_position root t =
     (source_position root (Descriptor (tag_problem t)), map_option RuleName_String (tag_rule t))"

text \<open>
  Modelled from the spec: \<^verbatim>\<open>Run\<close> of the missing package \<^verbatim>\<open>lint\<close> (section 4.3) on one
  root File: the walk, the dispatch at each visited declaration, and the output sorted by
  declaration source position and RuleName.
\<close>

definition Run :: "parser \<Rightarrow> decl \<Rightarrow> 'loc Registry \<Rightarrow> 'loc Tagged list" where
  "Run parse root reg =
     sort_key (sort_position root) (concat (map (visit parse reg root) (preorder root)))"

subsection \<open>Predicates on trees and rules\<close>

text \<open>
  The descriptor of the declaration at a path, if the path leads to one; a tree in which
  every declaration stands for a descriptor of its own, as in every tree of section 3,
  where a declaration has exactly one parent; and a rule whose check reports only on the
  declaration it was given. The check of object-values is such a rule; a message rule
  built from \<^verbatim>\<open>LintFieldPresentAndSingularString\<close> is not, it reports on a field of the
  message.
\<close>

definition ref_at :: "decl \<Rightarrow> path \<Rightarrow> descriptor option" where
  "ref_at root p = map_option decl_ref (lookup_decl root p)"

definition distinct_refs :: "decl \<Rightarrow> bool" where
  "distinct_refs root = distinct (map (ref_at root) (preorder root))"

definition reports_on_given :: "'loc Rule \<Rightarrow> bool" where
  "reports_on_given r =
     (\<forall>x ps. rule_Lint r x = Inr ps \<longrightarrow> (\<forall>pr \<in> set ps. Descriptor pr = x))"

section \<open>A small schema for concrete runs\<close>

text \<open>
  The schema of the rule's documentation, \<^verbatim>\<open>message Book { map<int32, Page> contents = 1; }\<close>,
  in a file of package \<^verbatim>\<open>example.library\<close>, with an enum \<^verbatim>\<open>Format\<close> and two methods. Field
  11 is \<^verbatim>\<open>contents\<close>, fields 12 and 13 are the key and the value of its map entry, field
  15 is a second map field \<^verbatim>\<open>books\<close> with the same entry type, every other field is a plain
  string field \<^verbatim>\<open>title\<close>.
\<close>

definition ex_store :: store where
  "ex_store =
     \<lparr>file_at = (\<lambda>a. \<lparr>file_name = ''library.proto'', file_package = ''example.library''\<rparr>),
      message_at = (\<lambda>a. \<lparr>msg_name = ''Page'', msg_fqn = ''example.library.Page'',
                           msg_file = Some 5, msg_fieldByName = (\<lambda>n. None)\<rparr>)
        (21 := \<lparr>msg_name = ''Book'', msg_fqn = ''example.library.Book'', msg_file = Some 5,
                 msg_fieldByName = (\<lambda>n. None)(''contents'' := Some 11, ''title'' := Some 14)\<rparr>,
         22 := \<lparr>msg_name = ''ContentsEntry'', msg_fqn = ''example.library.Book.ContentsEntry'',
                 msg_file = Some 5,
                 msg_fieldByName = (\<lambda>n. None)(''key'' := Some 12, ''value'' := Some 13)\<rparr>,
         24 := \<lparr>msg_name = ''GetBookRequest'', msg_fqn = ''example.library.GetBookRequest'',
                 msg_file = Some 5, msg_fieldByName = (\<lambda>n. None)\<rparr>),
      field_at = (\<lambda>a. \<lparr>fld_name = ''title'', fld_file = Some 5, fld_type = TYPE_STRING,
                         fld_repeated = False, fld_msgType = None, fld_mapValueType = None\<rparr>)
        (11 := \<lparr>fld_name = ''contents'', fld_file = Some 5, fld_type = TYPE_MESSAGE,
                 fld_repeated = True, fld_msgType = Some 22, fld_mapValueType = Some 13\<rparr>,
         12 := \<lparr>fld_name = ''key'', fld_file = Some 5, fld_type = TYPE_INT32,
                 fld_repeated = False, fld_msgType = None, fld_mapValueType = None\<rparr>,
         13 := \<lparr>fld_name = ''value'', fld_file = Some 5, fld_type = TYPE_MESSAGE,
                 fld_repeated = False, fld_msgType = Some 23, fld_mapValueType = None\<rparr>,
         15 := \<lparr>fld_name = ''books'', fld_file = Some 5, fld_type = TYPE_MESSAGE,
                 fld_repeated = True, fld_msgType = Some 22, fld_mapValueType = Some 13\<rparr>),
      enum_at = (\<lambda>a. \<lparr>enum_name = ''Format'', enum_file = Some 5\<rparr>),
      enum_value_at = (\<lambda>a. \<lparr>ev_name = ''HARDCOVER'', ev_number = 1, ev_enum = Some 31\<rparr>)
        (41 := \<lparr>ev_name = ''FORMAT_UNSPECIFIED'', ev_number = 0, ev_enum = Some 31\<rparr>,
         42 := \<lparr>ev_name = ''UNKNOWN'', ev_number = 0, ev_enum = Some 31\<rparr>),
      method_at = (\<lambda>a. \<lparr>mth_name = ''GetBook'', mth_inputType = Some 24, mth_outputType = Some 21\<rparr>)
        (52 := \<lparr>mth_name = ''CreateBook'', mth_inputType = Some 21, mth_outputType = Some 21\<rparr>)\<rparr>"

definition ex_upper_char :: "char \<Rightarrow> char" where
  "ex_upper_char c =
     (case map_of (zip ''abcdefghijklmnopqrstuvwxyz'' ''ABCDEFGHIJKLMNOPQRSTUVWXYZ'') c of
        None \<Rightarrow> c | Some u \<Rightarrow> u)"

definition ex_lower_char :: "char \<Rightarrow> char" where
  "ex_lower_char c =
     (case map_of (zip ''ABCDEFGHIJKLMNOPQRSTUVWXYZ'' ''abcdefghijklmnopqrstuvwxyz'') c of
        None \<Rightarrow> c | Some l \<Rightarrow> l)"

text \<open>
  A stand-in for \<^verbatim>\<open>strcase.SnakeCase\<close> on names made of ASCII letters and digits: a capital
  gets an underscore before it when it follows a small letter, or when it follows a
  capital and a small letter comes next, so that \<^verbatim>\<open>BookFormat\<close> becomes \<^verbatim>\<open>book_format\<close> and
  \<^verbatim>\<open>HTTPVerb\<close> becomes \<^verbatim>\<open>http_verb\<close>. The first argument is the character before.
\<close>

definition ex_is_upper :: "char \<Rightarrow> bool" where
  "ex_is_upper c = (ex_lower_char c \<noteq> c)"

definition ex_is_lower :: "char \<Rightarrow> bool" where
  "ex_is_lower c = (ex_upper_char c \<noteq> c)"

fun ex_snake :: "char option \<Rightarrow> string \<Rightarrow> string" where
  "ex_snake prev [] = []"
| "ex_snake prev (c # cs) =
     (if ex_is_upper c \<and>
         (case prev of
            None \<Rightarrow> False
          | Some p \<Rightarrow> ex_is_lower p \<or>
              (ex_is_upper p \<and> (case cs of [] \<Rightarrow> False | n # rest \<Rightarrow> ex_is_lower n)))
      then ''_'' else []) @ ex_lower_char c # ex_snake (Some c) cs"

text \<open>
  A stand-in for the verb \<^verbatim>\<open>%q\<close> on printable ASCII text: the text between double quotes,
  with a backslash before every double quote and every backslash in it.
\<close>

fun ex_escape :: "string \<Rightarrow> string" where
  "ex_escape [] = []"
| "ex_escape (c # cs) =
     (if c = CHR 0x22 \<or> c = CHR 0x5C then [CHR 0x5C, c] else [c]) @ ex_escape cs"

definition ex_quote :: "string \<Rightarrow> string" where
  "ex_quote t = [CHR 0x22] @ ex_escape t @ [CHR 0x22]"

text \<open>
  One choice of the helpers that the sources leave open, over locations written as
  text. Method 51 has one HTTP rule with an empty body, every other method has two HTTP
  rules with the bodies \<^verbatim>\<open>book\<close> and \<^verbatim>\<open>shelf\<close>.
\<close>

definition ex_env :: "string externals" where
  "ex_env =
     \<lparr>IsCommonProto = (\<lambda>s fl. case fl of None \<Rightarrow> False
                                | Some a \<Rightarrow> prefix ''google.'' (file_package (file_at s a))),
      GetFieldBehavior = (\<lambda>s f. if f = Some 11 then {''OUTPUT_ONLY''} else {}),
      GetResourceReference = (\<lambda>s f. None),
      GetHTTPRules = (\<lambda>s m.
        if m = Some 51 then [\<lparr>Method = ''GET'', URI = ''/v1/{name=books/*}'', Body = []\<rparr>]
        else [\<lparr>Method = ''POST'', URI = ''/v1/books'', Body = ''book''\<rparr>,
              \<lparr>Method = ''POST'', URI = ''/v1/shelves'', Body = ''shelf''\<rparr>]),
      GetVariables = (\<lambda>r. if URI r = ''/v1/{name=books/*}'' then [''name'' \<mapsto> ''books/*'']
                           else Map.empty),
      FieldType = (\<lambda>s f. case f of None \<Rightarrow> None
                            | Some a \<Rightarrow> Some (''type of '' @ fld_name (field_at s a))),
      DescriptorName = (\<lambda>s d. case d of
                            DescEnumValue (Some a) \<Rightarrow> Some (''name of '' @ ev_name (enum_value_at s a))
                          | _ \<Rightarrow> None),
      MethodHTTPRule = (\<lambda>s m. case m of None \<Rightarrow> None
                            | Some a \<Rightarrow> Some (''http rule of '' @ mth_name (method_at s a))),
      MethodRequestType = (\<lambda>s m. case m of None \<Rightarrow> None
                            | Some a \<Rightarrow> Some (''request type of '' @ mth_name (method_at s a))),
      MethodResponseType = (\<lambda>s m. case m of None \<Rightarrow> None
                            | Some a \<Rightarrow> Some (''response type of '' @ mth_name (method_at s a))),
      SnakeCase = ex_snake None,
      ToUpper = map ex_upper_char,
      Quote = ex_quote\<rparr>"

text \<open>
  The same schema as a declaration tree: the file, the message \<^verbatim>\<open>Book\<close> with the disabling
  comment of the rule's documentation and its fields \<^verbatim>\<open>contents\<close> and \<^verbatim>\<open>title\<close>, and a
  message \<^verbatim>\<open>Shelf\<close> without comment that holds the map field \<^verbatim>\<open>books\<close>.
\<close>

definition ex_comment :: string where
  "ex_comment =
     ''(-- api-linter: core::25146::object-values=disabled'' @ [CHR 0x0A] @
     ''    aip.dev/not-precedent: We need to do this because reasons. --)''"

definition ex_root :: decl where
  "ex_root =
     Declaration (DescFile (Some 5)) ''library.proto'' []
       [Declaration (DescMessage (Some 21)) ''Book'' [ex_comment]
          [Declaration (DescField (Some 11)) ''contents'' [] [],
           Declaration (DescField (Some 14)) ''title'' [] []],
        Declaration (DescMessage (Some 25)) ''Shelf'' []
          [Declaration (DescField (Some 15)) ''books'' [] []]]"

text \<open>
  A parser that knows the one comment of the tree.
\<close>

definition ex_parse :: parser where
  "ex_parse block =
     (if block = ex_comment
      then [Parsed \<lparr>sd_targets = [FullName ''core::25146::object-values''],
                    sd_justification = ''We need to do this because reasons.''\<rparr>]
      else [])"

text \<open>
  The rule object-values as a rule of the engine, reading the store of the small schema,
  and two registrations under its name.
\<close>

definition ex_rule :: "string Rule" where
  "ex_rule =
     \<lparr>rule_Name = Name (objectValues ex_env),
      rule_Kind = FieldKind,
      rule_OnlyIf = (\<lambda>d. case d of
                        DescField f \<Rightarrow> fst (OnlyIf (objectValues ex_env) f ex_store) = Inr True
                      | _ \<Rightarrow> False),
      rule_Lint = (\<lambda>d. case d of
                        DescField f \<Rightarrow> fst (LintField (objectValues ex_env) f ex_store)
                      | _ \<Rightarrow> Inr [])\<rparr>"

definition ex_other_rule :: "string Rule" where
  "ex_other_rule =
     \<lparr>rule_Name = Name (objectValues ex_env),
      rule_Kind = MessageKind,
      rule_OnlyIf = (\<lambda>d. True),
      rule_Lint = (\<lambda>d. Inr [])\<rparr>"

definition ex_registry :: "string Registry" where
  "ex_registry = \<lparr>reg_rules = [ex_rule], reg_frozen = False\<rparr>"

text \<open>
  A second tree over the same schema, in which the field \<^verbatim>\<open>contents\<close> itself carries a
  disabling comment, for a message rule that wants \<^verbatim>\<open>contents\<close> to be a singular string:
  the rule runs \<^verbatim>\<open>LintFieldPresentAndSingularString("contents")\<close> on the message and returns
  the problems of its error.
\<close>

definition ex_field_comment :: string where
  "ex_field_comment =
     ''(-- api-linter: core::9001::contents-string=disabled'' @ [CHR 0x0A] @
     ''    aip.dev/not-precedent: The contents are pages. --)''"

definition ex_field_root :: decl where
  "ex_field_root =
     Declaration (DescFile (Some 5)) ''library.proto'' []
       [Declaration (DescMessage (Some 21)) ''Book'' []
          [Declaration (DescField (Some 11)) ''contents'' [ex_field_comment] [],
           Declaration (DescField (Some 14)) ''title'' [] []]]"

definition ex_field_parse :: parser where
  "ex_field_parse block =
     (if block = ex_field_comment
      then [Parsed \<lparr>sd_targets = [FullName ''core::9001::contents-string''],
                    sd_justification = ''The contents are pages.''\<rparr>]
      else [])"

definition ex_message_rule :: "string Rule" where
  "ex_message_rule =
     \<lparr>rule_Name = NewRuleName 9001 ''contents-string'',
      rule_Kind = MessageKind,
      rule_OnlyIf = (\<lambda>d. True),
      rule_Lint = (\<lambda>d. case d of
                        DescMessage m \<Rightarrow>
                          (case fst (LintFieldPresentAndSingularString ex_env ''contents'' m
                                       ex_store) of
                             Inl e \<Rightarrow> Inl e
                           | Inr None \<Rightarrow> Inr []
                           | Inr (Some le) \<Rightarrow> Inr (Problems le))
                      | _ \<Rightarrow> Inr [])\<rparr>"

definition ex_message_registry :: "string Registry" where
  "ex_message_registry = \<lparr>reg_rules = [ex_message_rule], reg_frozen = False\<rparr>"

section \<open>Running computations\<close>

lemma ret_run: "ret x s = (Inr x, s)"
  by (simp add: ret_def)

lemma reads_run: "reads g s = (Inr (g s), s)"
  by (simp add: reads_def)

lemma deref_Some: "deref sel (Some a) s = (Inr (sel s a), s)"
  by (simp add: deref_def)

lemma deref_None: "deref sel None s = (Inl NilPointerDereference, s)"
  by (simp add: deref_def)

lemma seq_run:
  "seq m f s = (case m s of (Inl e, s') \<Rightarrow> (Inl e, s') | (Inr x, s') \<Rightarrow> f x s')"
  by (simp add: seq_def)

lemmas run_simps = ret_run reads_run deref_Some deref_None seq_run

subsection \<open>The small schema, evaluated\<close>

lemma ex_field_at:
  "field_at ex_store 11 =
     \<lparr>fld_name = ''contents'', fld_file = Some 5, fld_type = TYPE_MESSAGE,
      fld_repeated = True, fld_msgType = Some 22, fld_mapValueType = Some 13\<rparr>"
  "field_at ex_store 13 =
     \<lparr>fld_name = ''value'', fld_file = Some 5, fld_type = TYPE_MESSAGE,
      fld_repeated = False, fld_msgType = Some 23, fld_mapValueType = None\<rparr>"
  "field_at ex_store 14 =
     \<lparr>fld_name = ''title'', fld_file = Some 5, fld_type = TYPE_STRING,
      fld_repeated = False, fld_msgType = None, fld_mapValueType = None\<rparr>"
  by (simp_all add: ex_store_def)

lemma ex_file_at:
  "file_at ex_store a = \<lparr>file_name = ''library.proto'', file_package = ''example.library''\<rparr>"
  by (simp add: ex_store_def)

lemma ex_enum_value_at:
  "enum_value_at ex_store 41 =
     \<lparr>ev_name = ''FORMAT_UNSPECIFIED'', ev_number = 0, ev_enum = Some 31\<rparr>"
  "enum_value_at ex_store 42 = \<lparr>ev_name = ''UNKNOWN'', ev_number = 0, ev_enum = Some 31\<rparr>"
  "enum_value_at ex_store 43 = \<lparr>ev_name = ''HARDCOVER'', ev_number = 1, ev_enum = Some 31\<rparr>"
  by (simp_all add: ex_store_def)

lemma ex_enum_at: "enum_at ex_store a = \<lparr>enum_name = ''Format'', enum_file = Some 5\<rparr>"
  by (simp add: ex_store_def)

lemma ex_method_at:
  "method_at ex_store 51 =
     \<lparr>mth_name = ''GetBook'', mth_inputType = Some 24, mth_outputType = Some 21\<rparr>"
  "method_at ex_store 52 =
     \<lparr>mth_name = ''CreateBook'', mth_inputType = Some 21, mth_outputType = Some 21\<rparr>"
  by (simp_all add: ex_store_def)

lemma ex_want:
  "ToUpper ex_env (SnakeCase ex_env ''Format'' @ ''_UNSPECIFIED'') = ''FORMAT_UNSPECIFIED''"
  by (simp add: ex_env_def ex_upper_char_def ex_lower_char_def ex_is_upper_def ex_is_lower_def)

section \<open>The rule object-values on map fields\<close>

text \<open>
  C1. Let the field at address \<open>a\<close> be a map field whose value type is a message type,
  in a file that is not a common proto. Then the applicability predicate of the rule
  core::25146::object-values returns true and its check returns exactly one Problem: the
  Problem's descriptor is the field itself and its location is the field's type span
  (\<^verbatim>\<open>locations.FieldType(f)\<close>). Neither call panics or changes the store.
\<close>

theorem objectValues_reports_message_valued_map:
  assumes "\<not> IsCommonProto env s (fld_file (field_at s a))"
    and "fld_mapValueType (field_at s a) = Some v"
    and "fld_msgType (field_at s v) = Some mt"
  shows "OnlyIf (objectValues env) (Some a) s = (Inr True, s) \<and>
         LintField (objectValues env) (Some a) s =
           (Inr [\<lparr>Message = ''Avoid using objects as map values.'',
                   Suggestion = [],
                   Descriptor = DescField (Some a),
                   Location = FieldType env s (Some a)\<rparr>], s)"
  using assms
  by (simp add: objectValues_def objectValues_OnlyIf_def objectValues_LintField_def andalso_def
      Field_GetFile_def Field_GetMapValueType_def Field_GetMessageType_def run_simps)

theorem objectValues_reports_message_valued_map_witness:
  "OnlyIf (objectValues ex_env) (Some 11) ex_store = (Inr True, ex_store) \<and>
   LintField (objectValues ex_env) (Some 11) ex_store =
     (Inr [\<lparr>Message = ''Avoid using objects as map values.'', Suggestion = [],
             Descriptor = DescField (Some 11), Location = Some ''type of contents''\<rparr>],
      ex_store)"
proof -
  have 1: "\<not> IsCommonProto ex_env ex_store (fld_file (field_at ex_store 11))"
    by (simp add: ex_env_def ex_field_at ex_file_at)
  have 2: "fld_mapValueType (field_at ex_store 11) = Some 13"
    by (simp add: ex_field_at)
  have 3: "fld_msgType (field_at ex_store 13) = Some 23"
    by (simp add: ex_field_at)
  have 4: "FieldType ex_env ex_store (Some 11) = Some ''type of contents''"
    by (simp add: ex_env_def ex_field_at)
  from objectValues_reports_message_valued_map [OF 1 2 3] 4 show ?thesis by simp
qed

text \<open>
  C3. Whenever the applicability predicate of object-values has returned true for a
  field pointer \<open>f\<close>, the pointer is not \<^verbatim>\<open>nil\<close>, the field's map value type is not \<^verbatim>\<open>nil\<close>,
  and the check returns a list of problems: the access
  \<^verbatim>\<open>f.GetMapValueType().GetMessageType()\<close> does not dereference \<^verbatim>\<open>nil\<close>. The precondition
  is what makes the check defined: on a field whose map value type is \<^verbatim>\<open>nil\<close> the check
  panics.
\<close>

theorem objectValues_LintField_defined_after_OnlyIf:
  assumes "objectValues_OnlyIf env f s = (Inr True, s')"
  shows "(\<exists>a v ps. f = Some a \<and> fld_mapValueType (field_at s' a) = Some v \<and>
            objectValues_LintField env f s' = (Inr ps, s')) \<and>
         (\<forall>b t. fld_mapValueType (field_at t b) = None \<longrightarrow>
            objectValues_LintField env (Some b) t = (Inl NilPointerDereference, t))"
proof -
  from assms have "\<exists>a v ps. f = Some a \<and> fld_mapValueType (field_at s' a) = Some v \<and>
      objectValues_LintField env f s' = (Inr ps, s')"
    by (cases f)
       (auto simp add: objectValues_OnlyIf_def objectValues_LintField_def andalso_def
          Field_GetFile_def Field_GetMapValueType_def Field_GetMessageType_def run_simps
          split: if_splits)
  moreover have "objectValues_LintField env (Some b) t = (Inl NilPointerDereference, t)"
    if "fld_mapValueType (field_at t b) = None" for b t
    using that
    by (simp add: objectValues_LintField_def Field_GetMapValueType_def
        Field_GetMessageType_def run_simps)
  ultimately show ?thesis by blast
qed

theorem objectValues_LintField_defined_after_OnlyIf_witness:
  "objectValues_OnlyIf ex_env (Some 11) ex_store = (Inr True, ex_store) \<and>
   (\<exists>a v ps. Some 11 = Some a \<and> fld_mapValueType (field_at ex_store a) = Some v \<and>
      objectValues_LintField ex_env (Some 11) ex_store = (Inr ps, ex_store)) \<and>
   objectValues_LintField ex_env (Some 14) ex_store = (Inl NilPointerDereference, ex_store)"
proof -
  have h: "objectValues_OnlyIf ex_env (Some 11) ex_store = (Inr True, ex_store)"
    by (simp add: objectValues_OnlyIf_def andalso_def Field_GetFile_def
        Field_GetMapValueType_def run_simps ex_env_def ex_field_at ex_file_at)
  have n: "fld_mapValueType (field_at ex_store 14) = None"
    by (simp add: ex_field_at)
  note t = objectValues_LintField_defined_after_OnlyIf [OF h]
  from h t [THEN conjunct1] t [THEN conjunct2, rule_format, OF n] show ?thesis
    by (intro conjI)
qed



section \<open>The rule unspecified on enum values\<close>

text \<open>
  C4. For every enum value (at address \<open>a\<close>, in the enum at address \<open>e\<close>) the rule
  applies exactly when the value's number is 0. Its check returns one Problem exactly
  when the value's name differs from the wanted name, the upper-cased snake case of the
  enum's name with the suffix \<^verbatim>\<open>_UNSPECIFIED\<close>; that Problem suggests the wanted name, its
  descriptor is the enum value and its location is the span of the value's name
  (\<^verbatim>\<open>locations.DescriptorName(v)\<close>). For a conforming name the check returns no Problem.
\<close>

theorem unspecified_checks_zero_value_name:
  assumes "ev_enum (enum_value_at s a) = Some e"
  shows "let want = ToUpper env (SnakeCase env (enum_name (enum_at s e)) @ ''_UNSPECIFIED'') in
         OnlyIf (unspecified env) (Some a) s = (Inr (ev_number (enum_value_at s a) = 0), s) \<and>
         LintEnumValue (unspecified env) (Some a) s =
           (Inr (if ev_name (enum_value_at s a) \<noteq> want
                 then [\<lparr>Message = ''The first enum value should be '' @ Quote env want,
                         Suggestion = want,
                         Descriptor = DescEnumValue (Some a),
                         Location = DescriptorName env s (DescEnumValue (Some a))\<rparr>]
                 else []), s)"
  using assms
  by (simp add: unspecified_def isFirstEnumValue_def unspecified_LintEnumValue_def Let_def
      EnumValue_GetNumber_def EnumValue_GetEnum_def EnumValue_GetName_def Enum_GetName_def
      run_simps)

theorem unspecified_checks_zero_value_name_witness:
  "OnlyIf (unspecified ex_env) (Some 42) ex_store = (Inr True, ex_store) \<and>
   LintEnumValue (unspecified ex_env) (Some 42) ex_store =
     (Inr [\<lparr>Message = ''The first enum value should be '' @ [CHR 0x22] @ ''FORMAT_UNSPECIFIED''
                       @ [CHR 0x22],
             Suggestion = ''FORMAT_UNSPECIFIED'',
             Descriptor = DescEnumValue (Some 42),
             Location = Some ''name of UNKNOWN''\<rparr>], ex_store) \<and>
   LintEnumValue (unspecified ex_env) (Some 41) ex_store = (Inr [], ex_store) \<and>
   OnlyIf (unspecified ex_env) (Some 43) ex_store = (Inr False, ex_store)"
proof -
  have e: "ev_enum (enum_value_at ex_store 42) = Some 31"
    "ev_enum (enum_value_at ex_store 41) = Some 31" "ev_enum (enum_value_at ex_store 43) = Some 31"
    by (simp_all add: ex_enum_value_at)
  have q: "Quote ex_env t = [CHR 0x22] @ ex_escape t @ [CHR 0x22]" for t
    by (simp add: ex_env_def ex_quote_def)
  have l: "DescriptorName ex_env ex_store (DescEnumValue (Some 42)) = Some ''name of UNKNOWN''"
    by (simp add: ex_env_def ex_enum_value_at)
  from unspecified_checks_zero_value_name [OF e(1), of ex_env]
    unspecified_checks_zero_value_name [OF e(2), of ex_env]
    unspecified_checks_zero_value_name [OF e(3), of ex_env]
  show ?thesis
    by (simp add: Let_def ex_enum_at ex_enum_value_at ex_want q l)
qed

section \<open>The HTTP body lints\<close>

lemma lintHTTPBody_range_run:
  "lintHTTPBody_range env (Some a) want msg rules s =
     (Inr (if \<forall>h \<in> set rules. Body h = want then None
           else NewLintErr env
             [\<lparr>Message = ''The `'' @ mth_name (method_at s a) @ ''` method should '' @ msg
                           @ '' HTTP body.'',
               Suggestion = [],
               Descriptor = DescMethod (Some a),
               Location = MethodHTTPRule env s (Some a)\<rparr>]), s)"
  by (induction rules) (simp_all add: Method_GetName_def run_simps)

text \<open>
  C7. For every method (at address \<open>a\<close>) and wanted body, \<^verbatim>\<open>lintHTTPBody\<close> returns \<^verbatim>\<open>nil\<close>
  exactly when every HTTP rule of the method has the wanted body; otherwise it returns an
  error that carries exactly one Problem, however many HTTP rules have another body.
  \<^verbatim>\<open>LintNoHTTPBody\<close> and \<^verbatim>\<open>LintWildcardHTTPBody\<close> are the instances for the bodies \<^verbatim>\<open>""\<close> and
  \<^verbatim>\<open>"*"\<close>.
\<close>

theorem lintHTTPBody_single_problem:
  "let rules = GetHTTPRules env s (Some a);
       problem = (\<lambda>msg. \<lparr>Message = ''The `'' @ mth_name (method_at s a) @ ''` method should ''
                                     @ msg @ '' HTTP body.'',
                          Suggestion = [],
                          Descriptor = DescMethod (Some a),
                          Location = MethodHTTPRule env s (Some a)\<rparr>);
       outcome = (\<lambda>want msg.
         (Inr (if \<forall>h \<in> set rules. Body h = want then None
               else Some \<lparr>lintErr_problems = [problem msg],
                          lintErr_msg = Quote env (Message (problem msg))\<rparr>), s))
   in lintHTTPBody env (Some a) want msg s = outcome want msg \<and>
      LintNoHTTPBody env (Some a) s = outcome [] ''not have an'' \<and>
      LintWildcardHTTPBody env (Some a) s =
        outcome ''*'' (''use '' @ [CHR 0x22] @ ''*'' @ [CHR 0x22] @ '' as the'')"
  by (simp add: Let_def LintNoHTTPBody_def LintWildcardHTTPBody_def lintHTTPBody_def run_simps
      lintHTTPBody_range_run NewLintErr_def del: One_nat_def)

theorem lintHTTPBody_single_problem_witness:
  "LintWildcardHTTPBody ex_env (Some 52) ex_store =
     (Inr (Some \<lparr>lintErr_problems =
                   [\<lparr>Message = ''The `CreateBook` method should use '' @ [CHR 0x22] @ ''*''
                                 @ [CHR 0x22] @ '' as the HTTP body.'',
                     Suggestion = [],
                     Descriptor = DescMethod (Some 52),
                     Location = Some ''http rule of CreateBook''\<rparr>],
                 lintErr_msg = [CHR 0x22] @ ''The `CreateBook` method should use ''
                                 @ [CHR 0x5C, CHR 0x22] @ ''*'' @ [CHR 0x5C, CHR 0x22]
                                 @ '' as the HTTP body.'' @ [CHR 0x22]\<rparr>),
      ex_store) \<and>
   LintNoHTTPBody ex_env (Some 51) ex_store = (Inr None, ex_store)"
proof -
  have r: "GetHTTPRules ex_env ex_store (Some 52) =
             [\<lparr>Method = ''POST'', URI = ''/v1/books'', Body = ''book''\<rparr>,
              \<lparr>Method = ''POST'', URI = ''/v1/shelves'', Body = ''shelf''\<rparr>]"
    "GetHTTPRules ex_env ex_store (Some 51) =
             [\<lparr>Method = ''GET'', URI = ''/v1/{name=books/*}'', Body = []\<rparr>]"
    by (simp_all add: ex_env_def)
  have q: "Quote ex_env t = [CHR 0x22] @ ex_escape t @ [CHR 0x22]" for t
    by (simp add: ex_env_def ex_quote_def)
  have l: "MethodHTTPRule ex_env ex_store (Some 52) = Some ''http rule of CreateBook''"
    by (simp add: ex_env_def ex_method_at)
  from lintHTTPBody_single_problem [of ex_env ex_store 52]
    lintHTTPBody_single_problem [of ex_env ex_store 51]
  show ?thesis
    by (simp add: Let_def r q l ex_method_at)
qed

section \<open>The rule engine: identity, registry, suppression\<close>

lemma objectValues_name_text:
  "RuleName_String (NewRuleName 25146 ''object-values'') = ''core::25146::object-values''"
  by (simp add: RuleName_String_def NewRuleName_def nameSeparator_def Itoa_def decimal.simps
      digit_char_def)

text \<open>
  C5. The textual form of a RuleName is its namespace, numeric id and short name joined
  by \<^verbatim>\<open>::\<close>. The name of the rule object-values, built by
  \<^verbatim>\<open>NewRuleName(25146, "object-values")\<close>, renders as \<^verbatim>\<open>core::25146::object-values\<close>; a
  fully-qualified token of a suppression directive matches the rule exactly when it is
  this string, and the directive of the rule's documentation, attached to a declaration or
  to one of its ancestors, suppresses the rule there.
\<close>

theorem objectValues_RuleName_textual_form:
  "RuleName_String (Name (objectValues env)) = ''core::25146::object-values'' \<and>
   (\<forall>r. RuleName_String r =
          rn_namespace r @ ''::'' @ Itoa (rn_number r) @ ''::'' @ rn_short r) \<and>
   (\<forall>t. token_matches (FullName t) (Name (objectValues env)) =
          (t = ''core::25146::object-values'')) \<and>
   (\<forall>parse root p block.
      block \<in> set (comments_along root p) \<longrightarrow>
      Parsed \<lparr>sd_targets = [FullName ''core::25146::object-values''],
              sd_justification = ''We need to do this because reasons.''\<rparr>
        \<in> set (parse block) \<longrightarrow>
      IsSuppressed parse root p (Name (objectValues env)))"
proof -
  have n: "RuleName_String (Name (objectValues env)) = ''core::25146::object-values''"
    by (simp add: objectValues_def objectValues_name_text)
  have "IsSuppressed parse root p (Name (objectValues env))"
    if "block \<in> set (comments_along root p)"
      and "Parsed \<lparr>sd_targets = [FullName ''core::25146::object-values''],
              sd_justification = ''We need to do this because reasons.''\<rparr> \<in> set (parse block)"
    for parse root p block
    unfolding IsSuppressed_def
    using that n by (intro bexI [of _ block] bexI [of _ "Parsed _"]) auto
  with n show ?thesis
    by (auto simp add: RuleName_String_def nameSeparator_def)
qed

theorem objectValues_RuleName_textual_form_witness:
  "RuleName_String (Name (objectValues ex_env)) = ''core::25146::object-values'' \<and>
   IsSuppressed ex_parse ex_root [0, 0] (Name (objectValues ex_env))"
proof -
  have 1: "ex_comment \<in> set (comments_along ex_root [0, 0])"
    by (simp add: ex_root_def)
  have 2: "Parsed \<lparr>sd_targets = [FullName ''core::25146::object-values''],
              sd_justification = ''We need to do this because reasons.''\<rparr>
             \<in> set (ex_parse ex_comment)"
    by (simp add: ex_parse_def)
  note t = objectValues_RuleName_textual_form [of ex_env]
  note u = t [THEN conjunct2, THEN conjunct2, THEN conjunct2, rule_format,
      of ex_comment ex_root "[0, 0]" ex_parse]
  from t [THEN conjunct1] u [OF 1 2] show ?thesis by (rule conjI)
qed

lemma find_snoc: "find P xs = None \<Longrightarrow> find P (xs @ [x]) = (if P x then Some x else None)"
  by (induction xs) (auto split: if_splits)

text \<open>
  C9. After a first registration of a rule has succeeded, \<^verbatim>\<open>Register\<close> of a rule with the
  same RuleName fails with \<^verbatim>\<open>DuplicateRuleName\<close> and leaves the registry as it was: the
  registry is the old one with the first rule appended, and \<^verbatim>\<open>Lookup\<close> of the name returns
  the first rule, before and after the failed call.
\<close>

theorem Register_duplicate_rejected:
  assumes "Register r1 reg = (None, reg1)" and "rule_Name r2 = rule_Name r1"
  shows "Register r2 reg1 = (Some DuplicateRuleName, reg1) \<and>
         Lookup (rule_Name r1) reg1 = Some r1 \<and>
         Lookup (rule_Name r1) (snd (Register r2 reg1)) = Some r1 \<and>
         reg_rules reg1 = reg_rules reg @ [r1]"
proof -
  from assms(1) have nf: "\<not> reg_frozen reg" and fresh: "Lookup (rule_Name r1) reg = None"
    and reg1: "reg1 = reg\<lparr>reg_rules := reg_rules reg @ [r1]\<rparr>"
    by (auto simp: Register_def split: if_splits)
  from fresh have l: "Lookup (rule_Name r1) reg1 = Some r1"
    by (simp add: Lookup_def reg1 find_snoc)
  from nf reg1 have "\<not> reg_frozen reg1" by simp
  with l assms(2) have "Register r2 reg1 = (Some DuplicateRuleName, reg1)"
    by (simp add: Register_def)
  with l reg1 show ?thesis by simp
qed

theorem Register_duplicate_rejected_witness:
  "Register ex_rule \<lparr>reg_rules = [], reg_frozen = False\<rparr> = (None, ex_registry) \<and>
   Register ex_other_rule ex_registry = (Some DuplicateRuleName, ex_registry) \<and>
   Lookup (rule_Name ex_rule) ex_registry = Some ex_rule"
proof -
  have 1: "Register ex_rule \<lparr>reg_rules = [], reg_frozen = False\<rparr> = (None, ex_registry)"
    by (simp add: Register_def Lookup_def ex_registry_def)
  have 2: "rule_Name ex_other_rule = rule_Name ex_rule"
    by (simp add: ex_other_rule_def ex_rule_def)
  from 1 Register_duplicate_rejected [OF 1 2] show ?thesis by simp
qed

subsection \<open>Suppression reaches the descendants\<close>

lemma comments_along_prefix:
  "prefix d d' \<Longrightarrow> set (comments_along root d) \<subseteq> set (comments_along root d')"
proof (induction d arbitrary: root d')
  case Nil
  then show ?case by (cases d') auto
next
  case (Cons i d)
  from Cons.prems obtain e where d': "d' = i # e" and pe: "prefix d e"
    by (cases d') auto
  from Cons.IH [OF pe] show ?case
    by (auto simp: d')
qed

lemma IsSuppressed_descendant:
  "IsSuppressed parse root d n \<Longrightarrow> prefix d d' \<Longrightarrow> IsSuppressed parse root d' n"
  unfolding IsSuppressed_def using comments_along_prefix by blast

lemma check_rule_tag:
  "t \<in> set (check_rule parse root p d r) \<Longrightarrow>
     tag_rule t = Some (rule_Name r) \<and> \<not> IsSuppressed parse root p (rule_Name r)"
  by (auto simp: check_rule_def split: if_splits sum.splits)

lemma malformed_reports_tag: "t \<in> set (malformed_reports parse d) \<Longrightarrow> tag_rule t = None"
  by (auto simp: malformed_reports_def)

lemma visit_tag:
  "t \<in> set (visit parse reg root p) \<Longrightarrow> tag_rule t = Some n \<Longrightarrow>
     \<not> IsSuppressed parse root p n"
  by (auto simp: visit_def split: option.splits dest: malformed_reports_tag check_rule_tag)

lemma set_Run:
  "set (Run parse root reg) = (\<Union>p \<in> set (preorder root). set (visit parse reg root p))"
  by (simp add: Run_def)

subsection \<open>The walk visits every declaration\<close>

lemma preorder_lookup:
  "(p \<in> set (preorder d)) = (lookup_decl d p \<noteq> None)"
  "(p \<in> set (preorder_children i ch)) =
     (\<exists>j q. p = (i + j) # q \<and> j < length ch \<and> lookup_decl (ch ! j) q \<noteq> None)"
proof (induction d and i ch arbitrary: p and p rule: preorder_preorder_children.induct)
  case (1 r n cs ch)
  show ?case
  proof (cases p)
    case Nil
    then show ?thesis by simp
  next
    case (Cons k q)
    then show ?thesis using 1 [of p] by auto
  qed
next
  case (2 i)
  then show ?case by simp
next
  case (3 i c ch)
  show ?case
  proof
    assume "p \<in> set (preorder_children i (c # ch))"
    then consider q where "p = i # q" "q \<in> set (preorder c)"
      | "p \<in> set (preorder_children (Suc i) ch)"
      by auto
    then show "\<exists>j q. p = (i + j) # q \<and> j < length (c # ch) \<and>
                 lookup_decl ((c # ch) ! j) q \<noteq> None"
    proof cases
      case 1
      with 3 show ?thesis by (intro exI [of _ 0] exI [of _ q]) simp
    next
      case 2
      with 3 obtain j q where
        "p = (Suc i + j) # q" "j < length ch" "lookup_decl (ch ! j) q \<noteq> None"
        by blast
      then show ?thesis by (intro exI [of _ "Suc j"] exI [of _ q]) simp
    qed
  next
    assume "\<exists>j q. p = (i + j) # q \<and> j < length (c # ch) \<and>
              lookup_decl ((c # ch) ! j) q \<noteq> None"
    then obtain j q where jq: "p = (i + j) # q" "j < length (c # ch)"
      "lookup_decl ((c # ch) ! j) q \<noteq> None"
      by blast
    show "p \<in> set (preorder_children i (c # ch))"
    proof (cases j)
      case 0
      with jq 3 show ?thesis by auto
    next
      case (Suc k)
      with jq have "p = (Suc i + k) # q \<and> k < length ch \<and> lookup_decl (ch ! k) q \<noteq> None"
        by simp
      with 3 have "p \<in> set (preorder_children (Suc i) ch)" by blast
      then show ?thesis by simp
    qed
  qed
qed

subsection \<open>Problems of rules that report on the declaration they are given\<close>

lemma check_rule_descriptor:
  assumes "t \<in> set (check_rule parse root p d r)" and "reports_on_given r"
  shows "Descriptor (tag_problem t) = decl_ref d"
  using assms
  by (auto simp: check_rule_def reports_on_given_def split: if_splits sum.splits)

lemma check_rule_name:
  "t \<in> set (check_rule parse root p d r) \<Longrightarrow> tag_rule t = Some (rule_Name r)"
  by (auto simp: check_rule_def split: if_splits sum.splits)

lemma visit_descriptor:
  assumes "t \<in> set (visit parse reg root p)" and "tag_rule t = Some n"
    and "\<forall>r' \<in> set (reg_rules reg). rule_Name r' = n \<longrightarrow> reports_on_given r'"
  shows "ref_at root p = Some (Descriptor (tag_problem t))"
proof -
  from assms(1) obtain d where d: "lookup_decl root p = Some d"
    by (cases "lookup_decl root p") (auto simp: visit_def)
  with assms(1) have t: "t \<in> set (malformed_reports parse d) \<or>
      (\<exists>r' \<in> set (RulesForKind (kind_of (decl_ref d)) reg).
         t \<in> set (check_rule parse root p d r'))"
    by (auto simp: visit_def)
  from t assms(2) obtain r' where r': "r' \<in> set (reg_rules reg)"
    "t \<in> set (check_rule parse root p d r')"
    by (auto simp: RulesForKind_def dest: malformed_reports_tag)
  from r'(2) assms(2) have "rule_Name r' = n" by (auto dest: check_rule_name)
  with assms(3) r'(1) have "reports_on_given r'" by blast
  with r'(2) have "Descriptor (tag_problem t) = decl_ref d" by (rule check_rule_descriptor)
  with d show ?thesis by (simp add: ref_at_def)
qed

subsection \<open>The declaration tree of the small schema, evaluated\<close>

lemma ex_lookup:
  "lookup_decl ex_root [] = Some ex_root"
  "lookup_decl ex_root [0] =
     Some (Declaration (DescMessage (Some 21)) ''Book'' [ex_comment]
            [Declaration (DescField (Some 11)) ''contents'' [] [],
             Declaration (DescField (Some 14)) ''title'' [] []])"
  "lookup_decl ex_root [0, 0] = Some (Declaration (DescField (Some 11)) ''contents'' [] [])"
  "lookup_decl ex_root [0, 1] = Some (Declaration (DescField (Some 14)) ''title'' [] [])"
  "lookup_decl ex_root [1] =
     Some (Declaration (DescMessage (Some 25)) ''Shelf'' []
            [Declaration (DescField (Some 15)) ''books'' [] []])"
  "lookup_decl ex_root [1, 0] = Some (Declaration (DescField (Some 15)) ''books'' [] [])"
  by (simp_all add: ex_root_def)

lemma ex_preorder: "preorder ex_root = [[], [0], [0, 0], [0, 1], [1], [1, 0]]"
  by (simp add: ex_root_def)

lemma ex_distinct_refs: "distinct_refs ex_root"
  by (simp add: distinct_refs_def ex_preorder ref_at_def ex_lookup) (simp add: ex_root_def)

lemma ex_suppressed:
  "IsSuppressed ex_parse ex_root [0] (rule_Name ex_rule)"
  "\<not> IsSuppressed ex_parse ex_root [1, 0] (rule_Name ex_rule)"
  by (simp_all add: IsSuppressed_def ex_root_def ex_parse_def ex_rule_def objectValues_def
      objectValues_name_text)

lemma objectValues_LintField_descriptor:
  "objectValues_LintField env f s = (Inr ps, s') \<Longrightarrow> pr \<in> set ps \<Longrightarrow>
     Descriptor pr = DescField f"
  by (cases f; cases "fld_mapValueType (field_at s (the f))")
     (auto simp: objectValues_LintField_def Field_GetMapValueType_def Field_GetMessageType_def
        run_simps split: if_splits)

lemma ex_rule_reports_on_given: "reports_on_given ex_rule"
  unfolding reports_on_given_def
proof (intro allI impI ballI)
  fix x ps pr
  assume l: "rule_Lint ex_rule x = Inr ps" and pr: "pr \<in> set ps"
  show "Descriptor pr = x"
  proof (cases x)
    case (DescField f)
    with l have "fst (objectValues_LintField ex_env f ex_store) = Inr ps"
      by (simp add: ex_rule_def objectValues_def)
    then have "objectValues_LintField ex_env f ex_store =
        (Inr ps, snd (objectValues_LintField ex_env f ex_store))"
      by (metis prod.collapse)
    from objectValues_LintField_descriptor [OF this pr] DescField show ?thesis by simp
  qed (use l pr in \<open>auto simp: ex_rule_def\<close>)
qed

lemma ex_rule_kind: "rule_Kind ex_rule = FieldKind"
  by (simp add: ex_rule_def)

lemma ex_rule_books:
  "rule_OnlyIf ex_rule (DescField (Some 15))"
  "rule_Lint ex_rule (DescField (Some 15)) =
     Inr [\<lparr>Message = ''Avoid using objects as map values.'', Suggestion = [],
            Descriptor = DescField (Some 15), Location = Some ''type of books''\<rparr>]"
  by (simp_all add: ex_rule_def objectValues_def objectValues_OnlyIf_def
        objectValues_LintField_def andalso_def Field_GetFile_def Field_GetMapValueType_def
        Field_GetMessageType_def run_simps ex_env_def ex_store_def)

lemma ex_visit_books:
  "visit ex_parse ex_registry ex_root [1, 0] =
     [\<lparr>tag_rule = Some (rule_Name ex_rule), tag_condition = Finding,
       tag_problem = \<lparr>Message = ''Avoid using objects as map values.'', Suggestion = [],
                      Descriptor = DescField (Some 15), Location = Some ''type of books''\<rparr>\<rparr>]"
  unfolding visit_def ex_lookup
  by (simp add: malformed_reports_def RulesForKind_def ex_registry_def ex_rule_kind
      check_rule_def ex_suppressed ex_rule_books del: One_nat_def)

subsection \<open>The second tree, evaluated\<close>

lemma ex_message_rule_name_text:
  "RuleName_String (NewRuleName 9001 ''contents-string'') = ''core::9001::contents-string''"
  by (simp add: RuleName_String_def NewRuleName_def nameSeparator_def Itoa_def decimal.simps
      digit_char_def)

lemma ex_field_lookup:
  "lookup_decl ex_field_root [] = Some ex_field_root"
  "lookup_decl ex_field_root [0] =
     Some (Declaration (DescMessage (Some 21)) ''Book'' []
            [Declaration (DescField (Some 11)) ''contents'' [ex_field_comment] [],
             Declaration (DescField (Some 14)) ''title'' [] []])"
  "lookup_decl ex_field_root [0, 0] =
     Some (Declaration (DescField (Some 11)) ''contents'' [ex_field_comment] [])"
  "lookup_decl ex_field_root [0, 1] = Some (Declaration (DescField (Some 14)) ''title'' [] [])"
  by (simp_all add: ex_field_root_def)

lemma ex_field_preorder: "preorder ex_field_root = [[], [0], [0, 0], [0, 1]]"
  by (simp add: ex_field_root_def)

lemma ex_field_distinct_refs: "distinct_refs ex_field_root"
  by (simp add: distinct_refs_def ex_field_preorder ref_at_def ex_field_lookup)
     (simp add: ex_field_root_def)

lemma ex_field_suppressed:
  "IsSuppressed ex_field_parse ex_field_root [0, 0] (rule_Name ex_message_rule)"
  "\<not> IsSuppressed ex_field_parse ex_field_root [0] (rule_Name ex_message_rule)"
  by (simp_all add: IsSuppressed_def ex_field_root_def ex_field_parse_def ex_message_rule_def
      ex_message_rule_name_text)

lemma ex_message_at:
  "message_at ex_store 21 =
     \<lparr>msg_name = ''Book'', msg_fqn = ''example.library.Book'', msg_file = Some 5,
      msg_fieldByName = (\<lambda>n. None)(''contents'' := Some 11, ''title'' := Some 14)\<rparr>"
  by (simp add: ex_store_def)

lemma ex_contents_not_string:
  "LintFieldPresentAndSingularString ex_env ''contents'' (Some 21) ex_store =
     (Inr (Some \<lparr>lintErr_problems =
                   [\<lparr>Message = ''The `contents` field must be a singular string.'',
                     Suggestion = ''string'',
                     Descriptor = DescField (Some 11),
                     Location = Some ''type of contents''\<rparr>],
                 lintErr_msg = [CHR 0x22] @ ''The `contents` field must be a singular string.''
                                 @ [CHR 0x22]\<rparr>), ex_store)"
  by (simp add: LintFieldPresentAndSingularString_def LintFieldPresent_def
      LintSingularStringField_def lintSingularField_def FieldTypeString_def orelse_def
      Message_FindFieldByName_def Field_GetType_def Field_IsRepeated_def Field_GetName_def
      NewLintErr_def run_simps ex_message_at ex_field_at)
     (simp add: ex_env_def ex_quote_def ex_field_at)

lemma ex_message_rule_Book:
  "rule_Kind ex_message_rule = MessageKind"
  "rule_OnlyIf ex_message_rule (DescMessage (Some 21))"
  "rule_Lint ex_message_rule (DescMessage (Some 21)) =
     Inr [\<lparr>Message = ''The `contents` field must be a singular string.'',
            Suggestion = ''string'',
            Descriptor = DescField (Some 11),
            Location = Some ''type of contents''\<rparr>]"
  by (simp_all add: ex_message_rule_def ex_contents_not_string Problems_def)

lemma ex_field_visit_file:
  "visit ex_field_parse ex_message_registry ex_field_root [] = []"
  by (simp add: visit_def ex_field_root_def malformed_reports_def RulesForKind_def
      ex_message_registry_def ex_message_rule_Book)

lemma ex_field_visits:
  "visit ex_field_parse ex_message_registry ex_field_root [0] =
     [\<lparr>tag_rule = Some (rule_Name ex_message_rule), tag_condition = Finding,
       tag_problem = \<lparr>Message = ''The `contents` field must be a singular string.'',
                      Suggestion = ''string'',
                      Descriptor = DescField (Some 11),
                      Location = Some ''type of contents''\<rparr>\<rparr>]"
  "visit ex_field_parse ex_message_registry ex_field_root [0, 0] = []"
  "visit ex_field_parse ex_message_registry ex_field_root [0, 1] = []"
  unfolding visit_def ex_field_lookup
  by (simp_all add: malformed_reports_def RulesForKind_def ex_message_registry_def
      ex_message_rule_Book check_rule_def ex_field_suppressed ex_field_parse_def
      del: One_nat_def)

subsection \<open>Suppression monotonicity\<close>

text \<open>
  C10, as the claim states it, fails in the engine of section 4.3, which looks at the
  suppression of the declaration it visits before it invokes a check, and not at the
  declarations that the returned Problems refer to. In the second tree the rule
  core::9001::contents-string is suppressed at the field \<^verbatim>\<open>contents\<close> and not at the
  message \<^verbatim>\<open>Book\<close>; the visit of \<^verbatim>\<open>Book\<close> invokes the rule, whose check reports on the
  field, and the output of \<^verbatim>\<open>Run\<close> is that one Problem, tagged with the rule's name, for the
  declaration at which the rule is suppressed.
\<close>

theorem suppression_monotone_counterexample:
  "ex_message_rule \<in> set (reg_rules ex_message_registry) \<and>
   IsSuppressed ex_field_parse ex_field_root [0, 0] (rule_Name ex_message_rule) \<and>
   ref_at ex_field_root [0, 0] = Some (DescField (Some 11)) \<and>
   distinct_refs ex_field_root \<and>
   Run ex_field_parse ex_field_root ex_message_registry =
     [\<lparr>tag_rule = Some (rule_Name ex_message_rule), tag_condition = Finding,
       tag_problem = \<lparr>Message = ''The `contents` field must be a singular string.'',
                      Suggestion = ''string'',
                      Descriptor = DescField (Some 11),
                      Location = Some ''type of contents''\<rparr>\<rparr>]"
proof -
  have "Run ex_field_parse ex_field_root ex_message_registry =
     [\<lparr>tag_rule = Some (rule_Name ex_message_rule), tag_condition = Finding,
       tag_problem = \<lparr>Message = ''The `contents` field must be a singular string.'',
                      Suggestion = ''string'',
                      Descriptor = DescField (Some 11),
                      Location = Some ''type of contents''\<rparr>\<rparr>]"
    by (simp add: Run_def ex_field_preorder ex_field_visit_file ex_field_visits
        del: One_nat_def)
  moreover have "ref_at ex_field_root [0, 0] = Some (DescField (Some 11))"
    unfolding ref_at_def ex_field_lookup by simp
  moreover have "ex_message_rule \<in> set (reg_rules ex_message_registry)"
    by (simp add: ex_message_registry_def)
  ultimately show ?thesis
    using ex_field_suppressed(1) ex_field_distinct_refs by simp
qed

text \<open>
  C10, amended. Let the rule \<open>r\<close> be in the registry and suppressed at the declaration
  \<open>d\<close>, let every rule registered under the name of \<open>r\<close> report only on the declaration
  its check is given, and let every declaration of the tree stand for a descriptor of
  its own. Then the output of \<^verbatim>\<open>Run\<close> contains no Problem tagged with the name of \<open>r\<close> that
  refers to \<open>d\<close> or to a descendant of \<open>d\<close>.
\<close>

theorem suppression_monotone:
  assumes "r \<in> set (reg_rules reg)"
    and "IsSuppressed parse root d (rule_Name r)"
    and "\<forall>r' \<in> set (reg_rules reg). rule_Name r' = rule_Name r \<longrightarrow> reports_on_given r'"
    and "distinct_refs root"
  shows "\<forall>t \<in> set (Run parse root reg). tag_rule t = Some (rule_Name r) \<longrightarrow>
           (\<forall>d'. prefix d d' \<longrightarrow> ref_at root d' \<noteq> Some (Descriptor (tag_problem t)))"
proof (intro ballI impI allI)
  fix t d'
  assume t: "t \<in> set (Run parse root reg)" "tag_rule t = Some (rule_Name r)"
    and d': "prefix d d'"
  from t(1) obtain p where p: "p \<in> set (preorder root)" "t \<in> set (visit parse reg root p)"
    by (auto simp: set_Run)
  from visit_tag [OF p(2) t(2)] have "\<not> IsSuppressed parse root p (rule_Name r)" .
  with assms(2) have np: "\<not> prefix d p"
    by (blast dest: IsSuppressed_descendant)
  from visit_descriptor [OF p(2) t(2) assms(3)]
  have rp: "ref_at root p = Some (Descriptor (tag_problem t))" .
  show "ref_at root d' \<noteq> Some (Descriptor (tag_problem t))"
  proof
    assume eq: "ref_at root d' = Some (Descriptor (tag_problem t))"
    then have "lookup_decl root d' \<noteq> None" by (auto simp: ref_at_def)
    then have "d' \<in> set (preorder root)" by (simp add: preorder_lookup)
    moreover from assms(4) have "inj_on (ref_at root) (set (preorder root))"
      by (simp add: distinct_refs_def distinct_map)
    moreover from rp eq have "ref_at root p = ref_at root d'" by simp
    ultimately have "p = d'" using p(1) by (auto dest: inj_onD)
    with np d' show False by simp
  qed
qed

theorem suppression_monotone_witness:
  "IsSuppressed ex_parse ex_root [0] (rule_Name ex_rule) \<and>
   distinct_refs ex_root \<and>
   reports_on_given ex_rule \<and>
   ref_at ex_root [0, 0] \<notin>
     (\<lambda>t. Some (Descriptor (tag_problem t))) `
       {t \<in> set (Run ex_parse ex_root ex_registry). tag_rule t = Some (rule_Name ex_rule)} \<and>
   visit ex_parse ex_registry ex_root [1, 0] =
     [\<lparr>tag_rule = Some (rule_Name ex_rule), tag_condition = Finding,
       tag_problem = \<lparr>Message = ''Avoid using objects as map values.'', Suggestion = [],
                      Descriptor = DescField (Some 15), Location = Some ''type of books''\<rparr>\<rparr>]"
proof -
  have m: "ex_rule \<in> set (reg_rules ex_registry)"
    by (simp add: ex_registry_def)
  have og: "\<forall>r' \<in> set (reg_rules ex_registry).
      rule_Name r' = rule_Name ex_rule \<longrightarrow> reports_on_given r'"
    by (simp add: ex_registry_def ex_rule_reports_on_given)
  have p: "prefix [0] [0, 0::nat]" by simp
  from suppression_monotone [OF m ex_suppressed(1) og ex_distinct_refs] p
  have b: "\<forall>t \<in> set (Run ex_parse ex_root ex_registry). tag_rule t = Some (rule_Name ex_rule) \<longrightarrow>
      ref_at ex_root [0, 0] \<noteq> Some (Descriptor (tag_problem t))"
    by blast
  from b have "ref_at ex_root [0, 0] \<notin>
     (\<lambda>t. Some (Descriptor (tag_problem t))) `
       {t \<in> set (Run ex_parse ex_root ex_registry). tag_rule t = Some (rule_Name ex_rule)}"
    by force
  then show ?thesis
    using ex_suppressed(1) ex_distinct_refs ex_rule_reports_on_given ex_visit_books by simp
qed

end
